theory Spec2Isabelle
  imports Complex_Main "HOL-Library.Word"
begin

section \<open>JavaScript strings\<close>

text \<open>
  A JavaScript string is a sequence of UTF-16 code units; \<open>length\<close>, \<open>slice\<close>,
  \<open>indexOf\<close> and \<open>===\<close> all work on code units. ASCII literals of the source are
  written \<open>js ''...''\<close>; other literals are given by their code units.
\<close>

type_synonym unit16 = "16 word"
type_synonym jsstring = "unit16 list"

definition js :: "string \<Rightarrow> jsstring" where
  "js s = map of_char s"

definition is_white_space :: "unit16 \<Rightarrow> bool" where
  \<comment> \<open>WhiteSpace and LineTerminator of ECMAScript, the code units \<open>String.prototype.trim\<close> strips\<close>
  "is_white_space c \<longleftrightarrow>
     c = 0x09 \<or> c = 0x0A \<or> c = 0x0B \<or> c = 0x0C \<or> c = 0x0D \<or> c = 0x20 \<or> c = 0xA0 \<or>
     c = 0x1680 \<or> (0x2000 \<le> c \<and> c \<le> 0x200A) \<or> c = 0x2028 \<or> c = 0x2029 \<or>
     c = 0x202F \<or> c = 0x205F \<or> c = 0x3000 \<or> c = 0xFEFF"

definition trim :: "jsstring \<Rightarrow> jsstring" where
  "trim s = rev (dropWhile is_white_space (rev (dropWhile is_white_space s)))"

definition slice :: "jsstring \<Rightarrow> int \<Rightarrow> jsstring" where
  \<comment> \<open>\<open>s.slice(b)\<close>: a negative start counts from the end\<close>
  "slice s b =
     (let n = int (length s);
          k = (if b < 0 then max (n + b) 0 else min b n)
      in drop (nat k) s)"

fun indexOf_from :: "nat \<Rightarrow> jsstring \<Rightarrow> jsstring \<Rightarrow> int" where
  "indexOf_from i [] pat = (if pat = [] then int i else - 1)"
| "indexOf_from i (c # cs) pat =
     (if take (length pat) (c # cs) = pat then int i else indexOf_from (Suc i) cs pat)"

definition indexOf :: "jsstring \<Rightarrow> jsstring \<Rightarrow> int" where
  \<comment> \<open>\<open>s.indexOf(pat)\<close>: the first position where \<open>pat\<close> occurs, \<open>-1\<close> when there is none\<close>
  "indexOf s pat = indexOf_from 0 s pat"

fun lastIndexOf_from :: "nat \<Rightarrow> int \<Rightarrow> jsstring \<Rightarrow> jsstring \<Rightarrow> int" where
  "lastIndexOf_from i best [] pat = (if pat = [] then int i else best)"
| "lastIndexOf_from i best (c # cs) pat =
     lastIndexOf_from (Suc i) (if take (length pat) (c # cs) = pat then int i else best) cs pat"

definition lastIndexOf :: "jsstring \<Rightarrow> jsstring \<Rightarrow> int" where
  \<comment> \<open>\<open>s.lastIndexOf(pat)\<close>: the last position where \<open>pat\<close> occurs, \<open>-1\<close> when there is none\<close>
  "lastIndexOf s pat = lastIndexOf_from 0 (- 1) s pat"

definition substring :: "jsstring \<Rightarrow> int \<Rightarrow> int \<Rightarrow> jsstring" where
  \<comment> \<open>\<open>s.substring(a, b)\<close>: both ends clamped to \<open>[0, length]\<close>, swapped when \<open>a > b\<close>\<close>
  "substring s a b =
     (let n = int (length s);
          a' = max 0 (min a n);
          b' = max 0 (min b n);
          lo = min a' b';
          hi = max a' b'
      in take (nat (hi - lo)) (drop (nat lo) s))"


section \<open>JSON.parse\<close>

text \<open>
  \<open>JSON.parse\<close> is a built-in of the language; it is modelled by a recursive-descent
  parser of the JSON grammar (ECMA-404) on code units. A number is kept as the rational
  its literal denotes. An object is the list of its members in order of first occurrence,
  a repeated key keeping its place and taking the later value.
\<close>

datatype json =
    JNull
  | JBool bool
  | JNumber rat
  | JString jsstring
  | JArray "json list"
  | JObject "(jsstring \<times> json) list"

datatype error = SyntaxError | TypeError

definition is_json_ws :: "unit16 \<Rightarrow> bool" where
  "is_json_ws c \<longleftrightarrow> c = 0x20 \<or> c = 0x09 \<or> c = 0x0A \<or> c = 0x0D"

definition skip_ws :: "jsstring \<Rightarrow> jsstring" where
  "skip_ws = dropWhile is_json_ws"

definition is_digit :: "unit16 \<Rightarrow> bool" where
  "is_digit c \<longleftrightarrow> 0x30 \<le> c \<and> c \<le> 0x39"

definition hex_digit :: "unit16 \<Rightarrow> unit16 option" where
  "hex_digit c =
     (if 0x30 \<le> c \<and> c \<le> 0x39 then Some (c - 0x30)
      else if 0x41 \<le> c \<and> c \<le> 0x46 then Some (c - 0x37)
      else if 0x61 \<le> c \<and> c \<le> 0x66 then Some (c - 0x57)
      else None)"

fun hex4 :: "jsstring \<Rightarrow> unit16 option" where
  "hex4 [a, b, c, d] =
     (case (hex_digit a, hex_digit b, hex_digit c, hex_digit d) of
        (Some x, Some y, Some z, Some w) \<Rightarrow> Some (((x * 16 + y) * 16 + z) * 16 + w)
      | _ \<Rightarrow> None)"
| "hex4 _ = None"

definition unescape :: "unit16 \<Rightarrow> unit16 option" where
  \<comment> \<open>the character after a backslash: \<open>" \ / b f n r t\<close>\<close>
  "unescape e =
     (if e = 0x22 \<or> e = 0x5C \<or> e = 0x2F then Some e
      else if e = 0x62 then Some 0x08
      else if e = 0x66 then Some 0x0C
      else if e = 0x6E then Some 0x0A
      else if e = 0x72 then Some 0x0D
      else if e = 0x74 then Some 0x09
      else None)"

text \<open>The characters of a string literal after its opening quote, up to the closing one.\<close>

fun parse_string_body :: "jsstring \<Rightarrow> jsstring \<Rightarrow> (jsstring \<times> jsstring) option" where
  "parse_string_body acc [] = None"
| "parse_string_body acc (c # cs) =
     (if c = 0x22 then Some (acc, cs)
      else if c < 0x20 then None
      else if c = 0x5C then
        (case cs of
           [] \<Rightarrow> None
         | e # cs' \<Rightarrow>
             if e = 0x75 then
               (case hex4 (take 4 cs') of
                  None \<Rightarrow> None
                | Some u \<Rightarrow> parse_string_body (acc @ [u]) (drop 4 cs'))
             else
               (case unescape e of
                  None \<Rightarrow> None
                | Some u \<Rightarrow> parse_string_body (acc @ [u]) cs'))
      else parse_string_body (acc @ [c]) cs)"

definition digits_value :: "jsstring \<Rightarrow> nat" where
  "digits_value ds = foldl (\<lambda>a d. 10 * a + unat (d - 0x30)) 0 ds"

definition parse_exponent :: "jsstring \<Rightarrow> (int \<times> jsstring) option" where
  \<comment> \<open>an optional \<open>e\<close> or \<open>E\<close>, an optional sign, and at least one digit\<close>
  "parse_exponent cs =
     (case cs of
        [] \<Rightarrow> Some (0, cs)
      | c # r \<Rightarrow>
          if c = 0x65 \<or> c = 0x45 then
            (let (neg, r1) =
                   (case r of
                      [] \<Rightarrow> (False, r)
                    | s # r' \<Rightarrow> if s = 0x2D then (True, r') else if s = 0x2B then (False, r') else (False, r));
                 ds = takeWhile is_digit r1
             in if ds = [] then None
                else Some ((if neg then - int (digits_value ds) else int (digits_value ds)),
                           dropWhile is_digit r1))
          else Some (0, cs))"

definition parse_fraction :: "jsstring \<Rightarrow> (jsstring \<times> jsstring) option" where
  \<comment> \<open>an optional \<open>.\<close> followed by at least one digit\<close>
  "parse_fraction cs =
     (case cs of
        [] \<Rightarrow> Some ([], cs)
      | c # r \<Rightarrow>
          if c = 0x2E then
            (let fs = takeWhile is_digit r
             in if fs = [] then None else Some (fs, dropWhile is_digit r))
          else Some ([], cs))"

definition parse_number :: "jsstring \<Rightarrow> (rat \<times> jsstring) option" where
  "parse_number cs =
     (let (neg, cs1) =
            (case cs of [] \<Rightarrow> (False, cs) | c # r \<Rightarrow> if c = 0x2D then (True, r) else (False, cs));
          ds = takeWhile is_digit cs1
      in if ds = [] \<or> (length ds > 1 \<and> hd ds = 0x30) then None
         else
           (case parse_fraction (dropWhile is_digit cs1) of
              None \<Rightarrow> None
            | Some (fs, cs2) \<Rightarrow>
                (case parse_exponent cs2 of
                   None \<Rightarrow> None
                 | Some (ex, cs3) \<Rightarrow>
                     (let m = of_nat (digits_value (ds @ fs)) / 10 ^ length fs;
                          v = (if ex < 0 then m / 10 ^ nat (- ex) else m * 10 ^ nat ex)
                      in Some ((if neg then - v else v), cs3)))))"

definition obj_put :: "(jsstring \<times> json) list \<Rightarrow> jsstring \<Rightarrow> json \<Rightarrow> (jsstring \<times> json) list" where
  "obj_put kvs k v =
     (if map_of kvs k = None then kvs @ [(k, v)]
      else map (\<lambda>(k', v'). if k' = k then (k', v) else (k', v')) kvs)"

definition starts_with :: "jsstring \<Rightarrow> jsstring \<Rightarrow> bool" where
  "starts_with s pat \<longleftrightarrow> take (length pat) s = pat"

text \<open>
  The first argument bounds the number of nested calls; \<open>JSON_parse\<close> starts with twice
  the length of the text, and every second call at the latest consumes a code unit.
\<close>

fun parse_value :: "nat \<Rightarrow> jsstring \<Rightarrow> (json \<times> jsstring) option"
  and parse_elements :: "nat \<Rightarrow> json list \<Rightarrow> jsstring \<Rightarrow> (json \<times> jsstring) option"
  and parse_members :: "nat \<Rightarrow> (jsstring \<times> json) list \<Rightarrow> jsstring \<Rightarrow> (json \<times> jsstring) option"
where
  "parse_value 0 cs = None"
| "parse_value (Suc n) cs =
     (case skip_ws cs of
        [] \<Rightarrow> None
      | c # r \<Rightarrow>
          if c = 0x7B then
            (case skip_ws r of
               [] \<Rightarrow> None
             | d # r' \<Rightarrow> if d = 0x7D then Some (JObject [], r') else parse_members n [] r)
          else if c = 0x5B then
            (case skip_ws r of
               [] \<Rightarrow> None
             | d # r' \<Rightarrow> if d = 0x5D then Some (JArray [], r') else parse_elements n [] r)
          else if c = 0x22 then
            (case parse_string_body [] r of
               None \<Rightarrow> None
             | Some (s, r') \<Rightarrow> Some (JString s, r'))
          else if starts_with (c # r) (js ''true'') then Some (JBool True, drop 4 (c # r))
          else if starts_with (c # r) (js ''false'') then Some (JBool False, drop 5 (c # r))
          else if starts_with (c # r) (js ''null'') then Some (JNull, drop 4 (c # r))
          else
            (case parse_number (c # r) of
               None \<Rightarrow> None
             | Some (q, r') \<Rightarrow> Some (JNumber q, r')))"
| "parse_elements 0 acc cs = None"
| "parse_elements (Suc n) acc cs =
     (case parse_value n cs of
        None \<Rightarrow> None
      | Some (v, r) \<Rightarrow>
          (case skip_ws r of
             [] \<Rightarrow> None
           | c # r' \<Rightarrow>
               if c = 0x2C then parse_elements n (acc @ [v]) r'
               else if c = 0x5D then Some (JArray (acc @ [v]), r')
               else None))"
| "parse_members 0 acc cs = None"
| "parse_members (Suc n) acc cs =
     (case skip_ws cs of
        [] \<Rightarrow> None
      | c # r \<Rightarrow>
          if c \<noteq> 0x22 then None
          else
            (case parse_string_body [] r of
               None \<Rightarrow> None
             | Some (k, r1) \<Rightarrow>
                 (case skip_ws r1 of
                    [] \<Rightarrow> None
                  | c1 # r2 \<Rightarrow>
                      if c1 \<noteq> 0x3A then None
                      else
                        (case parse_value n r2 of
                           None \<Rightarrow> None
                         | Some (v, r3) \<Rightarrow>
                             (case skip_ws r3 of
                                [] \<Rightarrow> None
                              | c2 # r4 \<Rightarrow>
                                  if c2 = 0x2C then parse_members n (obj_put acc k v) r4
                                  else if c2 = 0x7D then Some (JObject (obj_put acc k v), r4)
                                  else None)))))"

definition JSON_parse :: "jsstring \<Rightarrow> error + json" where
  \<comment> \<open>\<open>JSON.parse(text)\<close>: one value with nothing but white space around it, or a SyntaxError\<close>
  "JSON_parse s =
     (case parse_value (2 * length s + 2) s of
        None \<Rightarrow> Inl SyntaxError
      | Some (v, r) \<Rightarrow> if skip_ws r = [] then Inr v else Inl SyntaxError)"


section \<open>GptService (services/gpt-service.js)\<close>

text \<open>An entry of \<open>userContext\<close>: \<open>{role, name?, content}\<close>.\<close>

record turn =
  t_role :: jsstring
  t_name :: "jsstring option"
  t_content :: jsstring

text \<open>The fields of the service that its methods mutate. The counter is a natural
  number; the JavaScript number it models counts exactly up to \<open>2^53\<close>.\<close>

record gpt_service =
  userContext :: "turn list"
  partialResponseIndex :: nat

text \<open>
  What a method does besides mutating the service, in the order it happens:
  \<open>emit("gptreply", {partialResponseIndex, partialResponse}, interactionCount)\<close>,
  a call of \<open>openai.chat.completions.create\<close> with the messages it was given,
  a call of a tool function with its argument, and the warning of \<open>validateFunctionArgs\<close>.
\<close>

datatype effect =
    GptReply "nat option" jsstring nat
  | CreateCompletion "turn list"
  | ToolCall jsstring "json option"
  | Warning jsstring

type_synonym run = "gpt_service \<times> effect list"

text \<open>
  A method returns, throws, or is still running when the bound on the depth of its
  recursion is reached (\<open>Pending\<close>); in each case the service and the effects so far
  are kept.
\<close>

datatype 'a outcome = Done 'a run | Threw error run | Pending run

fun run_of :: "'a outcome \<Rightarrow> run" where
  "run_of (Done x r) = r"
| "run_of (Threw e r) = r"
| "run_of (Pending r) = r"

text \<open>
  What lies outside the file: the function manifest (\<open>tool.function.name\<close> and
  \<open>tool.function.say\<close> of each entry), the module \<open>../functions/<name>\<close> of each
  tool, and the model, which answers the messages it is sent with a stream of chunks.
  A tool function is taken to return a string and the model to answer; what happens when
  either throws is not modelled.
\<close>

record tool =
  tool_name :: jsstring
  tool_say :: jsstring

record tool_call_delta =
  tc_name :: "jsstring option"
  tc_arguments :: "jsstring option"

text \<open>
  A chunk of the stream: \<open>choices[0].delta.content\<close>, \<open>choices[0].delta.tool_calls\<close>
  (of whose entries only the first is read) and \<open>choices[0].finish_reason\<close>; \<open>None\<close>
  is an absent or null field.
\<close>

record chunk =
  delta_content :: "jsstring option"
  delta_tool_calls :: "tool_call_delta list option"
  finish_reason :: "jsstring option"

record env =
  tools :: "tool list"
  tool_functions :: "jsstring \<Rightarrow> json option \<Rightarrow> jsstring"
  create :: "turn list \<Rightarrow> chunk list"

definition availableFunctions :: "env \<Rightarrow> jsstring \<Rightarrow> (json option \<Rightarrow> jsstring) option" where
  \<comment> \<open>filled by \<open>tools.forEach\<close>: one entry per tool of the manifest\<close>
  "availableFunctions ev nm =
     (if nm \<in> set (map tool_name (tools ev)) then Some (tool_functions ev nm) else None)"

definition loadPromptFromFile :: "(jsstring \<times> jsstring) option \<Rightarrow> turn list" where
  \<comment> \<open>the argument is \<open>system_prompt\<close> and \<open>assistant_prompt\<close> of prompt.json,
      \<open>None\<close> when the file cannot be read or parsed\<close>
  "loadPromptFromFile promptData =
     (case promptData of
        Some (system_prompt, assistant_prompt) \<Rightarrow>
          [\<lparr>t_role = js ''system'', t_name = None, t_content = system_prompt\<rparr>,
           \<lparr>t_role = js ''assistant'', t_name = None, t_content = assistant_prompt\<rparr>]
      | None \<Rightarrow>
          [\<lparr>t_role = js ''system'', t_name = None, t_content = js ''You are a helpful assistant.''\<rparr>,
           \<lparr>t_role = js ''assistant'', t_name = None,
            t_content = js ''Hello! How can I help you today?''\<rparr>])"

definition GptService_new :: "(jsstring \<times> jsstring) option \<Rightarrow> gpt_service" where
  "GptService_new promptData =
     \<lparr>userContext = loadPromptFromFile promptData, partialResponseIndex = 0\<rparr>"

definition setCallSid :: "gpt_service \<Rightarrow> jsstring \<Rightarrow> gpt_service" where
  "setCallSid svc callSid =
     svc\<lparr>userContext := userContext svc @
       [\<lparr>t_role = js ''system'', t_name = None, t_content = js ''callSid: '' @ callSid\<rparr>]\<rparr>"

definition validateFunctionArgs :: "jsstring \<Rightarrow> (error + json option) \<times> effect list" where
  \<comment> \<open>the result is the parsed value, \<open>undefined\<close> (\<open>None\<close>) when the function falls off
      its end, or the error thrown by the second \<open>JSON.parse\<close>, which nothing catches\<close>
  "validateFunctionArgs args =
     (case JSON_parse args of
        Inr v \<Rightarrow> (Inr (Some v), [])
      | Inl _ \<Rightarrow>
          (if indexOf args (js ''{'') \<noteq> lastIndexOf args (js ''{'')
           then (case JSON_parse (substring args (indexOf args []) (indexOf args (js ''}'') + 1)) of
                   Inr v \<Rightarrow> Inr (Some v)
                 | Inl e \<Rightarrow> Inl e)
           else Inr None,
           [Warning args]))"

definition updateUserContext :: "gpt_service \<Rightarrow> jsstring \<Rightarrow> jsstring \<Rightarrow> jsstring \<Rightarrow> gpt_service" where
  "updateUserContext svc name role text =
     (if name \<noteq> js ''user''
      then svc\<lparr>userContext := userContext svc @ [\<lparr>t_role = role, t_name = Some name, t_content = text\<rparr>]\<rparr>
      else svc\<lparr>userContext := userContext svc @ [\<lparr>t_role = role, t_name = None, t_content = text\<rparr>]\<rparr>)"

text \<open>The local variables of \<open>completion\<close> that live across the chunks of a stream.\<close>

record locals =
  completeResponse :: jsstring
  partialResponse :: jsstring
  functionName :: jsstring
  functionArgs :: jsstring

definition locals_init :: locals where
  "locals_init = \<lparr>completeResponse = [], partialResponse = [], functionName = [], functionArgs = []\<rparr>"

definition collectToolInformation :: "tool_call_delta list \<Rightarrow> locals \<Rightarrow> locals" where
  "collectToolInformation tcs l =
     (let name = (case tcs of [] \<Rightarrow> [] | tc # _ \<Rightarrow> (case tc_name tc of None \<Rightarrow> [] | Some n \<Rightarrow> n));
          l1 = (if name \<noteq> [] then l\<lparr>functionName := name\<rparr> else l);
          args = (case tcs of [] \<Rightarrow> [] | tc # _ \<Rightarrow> (case tc_arguments tc of None \<Rightarrow> [] | Some a \<Rightarrow> a))
      in if args \<noteq> [] then l1\<lparr>functionArgs := functionArgs l1 @ args\<rparr> else l1)"

text \<open>
  The string literal that the last code unit of a trimmed chunk is compared with.
  In services/gpt-service.js it is the three code units U+00E2 U+20AC U+00A2; in the
  other copy of the class in the repository it is the single code unit U+2022, the bullet.
\<close>

definition gpt_service_marker :: jsstring where
  "gpt_service_marker = [0xE2, 0x20AC, 0xA2]"


text \<open>
  The body of \<open>for await (const chunk of stream)\<close>, one chunk at a time. \<open>mk\<close> is the
  marker literal, \<open>rec\<close> the recursive call \<open>this.completion\<close>.
\<close>

fun consume ::
  "jsstring \<Rightarrow> (jsstring \<Rightarrow> nat \<Rightarrow> jsstring \<Rightarrow> jsstring \<Rightarrow> run \<Rightarrow> unit outcome) \<Rightarrow>
   env \<Rightarrow> nat \<Rightarrow> locals \<Rightarrow> chunk list \<Rightarrow> run \<Rightarrow> locals outcome" where
  "consume mk rec ev interactionCount l [] r = Done l r"
| "consume mk rec ev interactionCount l (ch # chs) r =
     (let content = (case delta_content ch of None \<Rightarrow> [] | Some c \<Rightarrow> c);
          finishReason = finish_reason ch;
          l1 = (case delta_tool_calls ch of None \<Rightarrow> l | Some tcs \<Rightarrow> collectToolInformation tcs l)
      in if finishReason = Some (js ''tool_calls'') then
           (let functionToCall = availableFunctions ev (functionName l1) in
            case validateFunctionArgs (functionArgs l1) of
              (Inl e, w) \<Rightarrow> Threw e (fst r, snd r @ w)
            | (Inr validatedArgs, w) \<Rightarrow>
                (case find (\<lambda>t. tool_name t = functionName l1) (tools ev) of
                   None \<Rightarrow> Threw TypeError (fst r, snd r @ w)
                 | Some toolData \<Rightarrow>
                     (let eff1 = snd r @ w @ [GptReply None (tool_say toolData) interactionCount] in
                      case functionToCall of
                        None \<Rightarrow> Threw TypeError (fst r, eff1)
                      | Some f \<Rightarrow>
                          (let functionResponse = f validatedArgs;
                               eff2 = eff1 @ [ToolCall (functionName l1) validatedArgs];
                               svc1 = updateUserContext (fst r) (functionName l1) (js ''function'')
                                        functionResponse
                           in case rec functionResponse interactionCount (js ''function'')
                                     (functionName l1) (svc1, eff2) of
                                Pending r' \<Rightarrow> Pending r'
                              | Threw e r' \<Rightarrow> Threw e r'
                              | Done _ r' \<Rightarrow> consume mk rec ev interactionCount l1 chs r'))))
         else
           (let l2 = l1\<lparr>completeResponse := completeResponse l1 @ content,
                       partialResponse := partialResponse l1 @ content\<rparr>
            in if slice (trim content) (- 1) = mk \<or> finishReason = Some (js ''stop'') then
                 consume mk rec ev interactionCount (l2\<lparr>partialResponse := []\<rparr>) chs
                   ((fst r)\<lparr>partialResponseIndex := partialResponseIndex (fst r) + 1\<rparr>,
                    snd r @ [GptReply (Some (partialResponseIndex (fst r))) (partialResponse l2)
                               interactionCount])
               else consume mk rec ev interactionCount l2 chs r))"

text \<open>
  \<open>completion(text, interactionCount, role, name)\<close>. The first argument bounds the depth
  of the recursion through tool calls, which the source leaves unbounded: a call that
  would go deeper is \<open>Pending\<close>, with the run as it stands at that moment.
\<close>

primrec completion_with ::
  "nat \<Rightarrow> jsstring \<Rightarrow> env \<Rightarrow> jsstring \<Rightarrow> nat \<Rightarrow> jsstring \<Rightarrow> jsstring \<Rightarrow> run \<Rightarrow> unit outcome" where
  "completion_with 0 mk ev text interactionCount role name r = Pending r"
| "completion_with (Suc n) mk ev text interactionCount role name r =
     (let svc1 = updateUserContext (fst r) name role text;
          eff1 = snd r @ [CreateCompletion (userContext svc1)];
          stream = create ev (userContext svc1)
      in case consume mk (completion_with n mk ev) ev interactionCount locals_init stream (svc1, eff1) of
           Pending r' \<Rightarrow> Pending r'
         | Threw e r' \<Rightarrow> Threw e r'
         | Done l r' \<Rightarrow>
             Done ()
               ((fst r')\<lparr>userContext := userContext (fst r') @
                   [\<lparr>t_role = js ''assistant'', t_name = None, t_content = completeResponse l\<rparr>]\<rparr>,
                snd r'))"

definition completion ::
  "nat \<Rightarrow> env \<Rightarrow> jsstring \<Rightarrow> nat \<Rightarrow> jsstring \<Rightarrow> jsstring \<Rightarrow> run \<Rightarrow> unit outcome" where
  \<comment> \<open>the method of services/gpt-service.js\<close>
  "completion n = completion_with n gpt_service_marker"

subsection \<open>Turns that overlap\<close>

text \<open>
  app.js calls \<open>gptService.completion(text, interactionCount)\<close> without \<open>await\<close>, and
  \<open>for await\<close> hands control back to the event loop before every chunk. So the turns of
  a call can overlap: between two chunks of one turn, another turn can begin or go on.
  A turn that has begun and not ended is the state of its loop: its
  \<open>interactionCount\<close>, its local variables and the chunks still to come.
\<close>

record task =
  task_ic :: nat
  task_locals :: locals
  task_rest :: "chunk list"

text \<open>
  What the event loop does next: \<open>Begin\<close> is the call of \<open>completion\<close> from app.js (role
  and name \<open>user\<close>), up to the stream being there; \<open>Resume i\<close> lets the \<open>i\<close>-th turn
  begun run its loop body on its next chunk, or, its stream being at its end, append the
  assistant turn and end. A call of \<open>completion\<close> made by a loop body for a tool runs to
  its end inside that step.
\<close>

datatype action = Begin jsstring nat | Resume nat

type_synonym call = "run \<times> task option list"

fun act :: "nat \<Rightarrow> jsstring \<Rightarrow> env \<Rightarrow> call \<Rightarrow> action \<Rightarrow> call" where
  "act n mk ev (r, ts) (Begin text interactionCount) =
     (let svc1 = updateUserContext (fst r) (js ''user'') (js ''user'') text;
          eff1 = snd r @ [CreateCompletion (userContext svc1)];
          stream = create ev (userContext svc1)
      in ((svc1, eff1),
          ts @ [Some \<lparr>task_ic = interactionCount, task_locals = locals_init, task_rest = stream\<rparr>]))"
| "act n mk ev (r, ts) (Resume i) =
     (if i < length ts then
        (case ts ! i of
           None \<Rightarrow> (r, ts)
         | Some t \<Rightarrow>
             (case task_rest t of
                [] \<Rightarrow>
                  (((fst r)\<lparr>userContext := userContext (fst r) @
                       [\<lparr>t_role = js ''assistant'', t_name = None,
                         t_content = completeResponse (task_locals t)\<rparr>]\<rparr>,
                    snd r),
                   ts[i := None])
              | ch # chs \<Rightarrow>
                  (case consume mk (completion_with n mk ev) ev (task_ic t) (task_locals t) [ch] r of
                     Done l r' \<Rightarrow> (r', ts[i := Some (t\<lparr>task_locals := l, task_rest := chs\<rparr>)])
                   | Threw e r' \<Rightarrow> (r', ts[i := None])
                   | Pending r' \<Rightarrow> (r', ts[i := None]))))
      else (r, ts))"

fun run_schedule :: "nat \<Rightarrow> jsstring \<Rightarrow> env \<Rightarrow> call \<Rightarrow> action list \<Rightarrow> call" where
  "run_schedule n mk ev c [] = c"
| "run_schedule n mk ev c (a # as) = run_schedule n mk ev (act n mk ev c a) as"



section \<open>TranscriptionService (services/transcription-service.js)\<close>

text \<open>
  The fields of a Deepgram event that the \<open>Transcript\<close> listener reads:
  \<open>type\<close>, \<open>is_final\<close>, \<open>speech_final\<close> and
  \<open>channel?.alternatives[0]?.transcript\<close> (\<open>None\<close> when any link of that chain is absent).
\<close>

record transcription_event =
  ev_type :: jsstring
  is_final :: bool
  speech_final :: bool
  transcript :: "jsstring option"

text \<open>The two fields the constructor initialises and the listener mutates.\<close>

record transcription_service =
  finalResult :: jsstring
  speechFinal :: bool

text \<open>What the service emits: \<open>'transcription'\<close> (a finished utterance) and \<open>'utterance'\<close> (interim text).\<close>

datatype stt_emit = Transcription jsstring | Utterance jsstring

definition TranscriptionService_new :: transcription_service where
  "TranscriptionService_new = \<lparr>finalResult = [], speechFinal = False\<rparr>"

definition event_text :: "transcription_event \<Rightarrow> jsstring" where
  \<comment> \<open>\<open>alternatives && alternatives[0]?.transcript ? alternatives[0].transcript : ""\<close>\<close>
  "event_text e = (case transcript e of None \<Rightarrow> [] | Some t \<Rightarrow> t)"

definition on_transcript ::
  "transcription_service \<Rightarrow> transcription_event \<Rightarrow> transcription_service \<times> stt_emit list" where
  "on_transcript s e =
     (let text = event_text e in
      if ev_type e = js ''UtteranceEnd'' then
        (if \<not> speechFinal s \<and> length (finalResult s) > 0
         then (s\<lparr>finalResult := []\<rparr>, [Transcription (finalResult s)])
         else (s, []))
      else if is_final e \<and> length (trim text) > 0 then
        (let acc = finalResult s @ text @ js '' '' in
         if speech_final e
         then (s\<lparr>speechFinal := True, finalResult := []\<rparr>, [Transcription acc])
         else (s\<lparr>finalResult := acc, speechFinal := False\<rparr>, []))
      else if length (trim text) > 0 then (s, [Utterance text])
      else (s, []))"

text \<open>The listener run over the events of a connection, in arrival order, collecting the emissions.\<close>

fun on_transcripts ::
  "transcription_service \<Rightarrow> transcription_event list \<Rightarrow> transcription_service \<times> stt_emit list" where
  "on_transcripts s [] = (s, [])"
| "on_transcripts s (e # es) =
     (case on_transcript s e of (s1, out1) \<Rightarrow>
        (case on_transcripts s1 es of (s2, out2) \<Rightarrow> (s2, out1 @ out2)))"

text \<open>
  How a message of the provider reaches the service. The connection object of the
  Deepgram SDK (a dependency, not part of the repository) parses a message and emits it
  under the event that its \<open>type\<close> field names: \<open>Results\<close> is
  \<open>LiveTranscriptionEvents.Transcript\<close>, \<open>UtteranceEnd\<close> is
  \<open>LiveTranscriptionEvents.UtteranceEnd\<close>, and so on; a type it does not know goes to
  \<open>Unhandled\<close>. \<open>Open\<close>, \<open>Close\<close>, \<open>Error\<close> and \<open>Warning\<close> are events of the
  connection itself and carry no message of the provider.
\<close>

datatype live_event =
    OpenEvent | CloseEvent | TranscriptEvent | MetadataEvent | ErrorEvent | WarningEvent
  | UtteranceEndEvent | SpeechStartedEvent | UnhandledEvent

definition event_of_message :: "transcription_event \<Rightarrow> live_event" where
  "event_of_message m =
     (if ev_type m = js ''Metadata'' then MetadataEvent
      else if ev_type m = js ''Results'' then TranscriptEvent
      else if ev_type m = js ''UtteranceEnd'' then UtteranceEndEvent
      else if ev_type m = js ''SpeechStarted'' then SpeechStartedEvent
      else UnhandledEvent)"

definition log_only ::
  "transcription_service \<Rightarrow> transcription_event \<Rightarrow> transcription_service \<times> stt_emit list" where
  \<comment> \<open>a listener whose body is one call of \<open>console\<close>\<close>
  "log_only s e = (s, [])"

text \<open>
  \<open>setupEventListeners\<close>: the six calls of \<open>this.dgConnection.on\<close>, for \<open>Open\<close>,
  \<open>Transcript\<close>, \<open>Error\<close>, \<open>Warning\<close>, \<open>Metadata\<close> and \<open>Close\<close>. No listener is
  registered for any other event.
\<close>

definition setupEventListeners ::
  "live_event \<Rightarrow>
   (transcription_service \<Rightarrow> transcription_event \<Rightarrow> transcription_service \<times> stt_emit list) option" where
  "setupEventListeners ev =
     (case ev of
        OpenEvent \<Rightarrow> Some log_only
      | TranscriptEvent \<Rightarrow> Some on_transcript
      | ErrorEvent \<Rightarrow> Some log_only
      | WarningEvent \<Rightarrow> Some log_only
      | MetadataEvent \<Rightarrow> Some log_only
      | CloseEvent \<Rightarrow> Some log_only
      | _ \<Rightarrow> None)"

definition on_message ::
  "transcription_service \<Rightarrow> transcription_event \<Rightarrow> transcription_service \<times> stt_emit list" where
  \<comment> \<open>a message of the provider arrives: the listener of its event runs, if there is one\<close>
  "on_message s m =
     (case setupEventListeners (event_of_message m) of
        None \<Rightarrow> (s, [])
      | Some listener \<Rightarrow> listener s m)"

fun on_messages ::
  "transcription_service \<Rightarrow> transcription_event list \<Rightarrow> transcription_service \<times> stt_emit list" where
  "on_messages s [] = (s, [])"
| "on_messages s (m # ms) =
     (case on_message s m of (s1, out1) \<Rightarrow>
        (case on_messages s1 ms of (s2, out2) \<Rightarrow> (s2, out1 @ out2)))"

definition results_event :: "bool \<Rightarrow> bool \<Rightarrow> jsstring \<Rightarrow> transcription_event" where
  \<comment> \<open>a \<open>Results\<close> event of the provider with the given flags and transcript\<close>
  "results_event fin sfin t =
     \<lparr>ev_type = js ''Results'', is_final = fin, speech_final = sfin, transcript = Some t\<rparr>"

definition utterance_end_message :: transcription_event where
  \<comment> \<open>the end-of-segment message of the provider, \<open>{"type": "UtteranceEnd", ...}\<close>; it has
      no \<open>is_final\<close>, \<open>speech_final\<close> or \<open>channel\<close>\<close>
  "utterance_end_message =
     \<lparr>ev_type = js ''UtteranceEnd'', is_final = False, speech_final = False, transcript = None\<rparr>"


section \<open>The connection handler of app.js\<close>

text \<open>
  Per connection the handler keeps \<open>marks\<close>, the labels of the audio chunks sent to the
  transport and not yet acknowledged; \<open>sent\<close> records the messages written to the
  WebSocket by the handlers modelled here.
\<close>

datatype ws_message = Clear

record connection =
  marks :: "jsstring list"
  sent :: "ws_message list"

definition connection_new :: connection where
  "connection_new = \<lparr>marks = [], sent = []\<rparr>"

definition on_mark :: "connection \<Rightarrow> jsstring \<Rightarrow> connection" where
  \<comment> \<open>\<open>msg.event === "mark"\<close>: \<open>marks = marks.filter((m) => m !== msg.mark.name)\<close>\<close>
  "on_mark c name = c\<lparr>marks := filter (\<lambda>m. m \<noteq> name) (marks c)\<rparr>"

definition on_audiosent :: "connection \<Rightarrow> jsstring \<Rightarrow> connection" where
  \<comment> \<open>\<open>streamService.on("audiosent")\<close>: \<open>marks.push(markLabel)\<close>\<close>
  "on_audiosent c markLabel = c\<lparr>marks := marks c @ [markLabel]\<rparr>"

definition on_utterance :: "connection \<Rightarrow> jsstring option \<Rightarrow> connection" where
  \<comment> \<open>\<open>if (marks.length > 0 && text?.length > 5) ws.send(... event: "clear")\<close>;
      \<open>None\<close> is an absent text, for which \<open>text?.length > 5\<close> is false\<close>
  "on_utterance c text =
     (if length (marks c) > 0 \<and> (case text of None \<Rightarrow> False | Some t \<Rightarrow> length t > 5)
      then c\<lparr>sent := sent c @ [Clear]\<rparr>
      else c)"


section \<open>Vocabulary of the properties\<close>

text \<open>The indices of the fragments among some effects, in the order of emission; a fragment
  emitted with \<open>partialResponseIndex: null\<close> has none.\<close>

fun reply_indices :: "effect list \<Rightarrow> nat list" where
  "reply_indices [] = []"
| "reply_indices (GptReply (Some i) p c # es) = i # reply_indices es"
| "reply_indices (e # es) = reply_indices es"


text \<open>
  \<open>extends r r'\<close>: from \<open>r\<close> to \<open>r'\<close> the log has only been appended to, the counter has
  not gone down, effects have only been added, and the fragments among the added effects
  carry the counter values from the old to the new one, each once and in order.
\<close>

definition extends :: "run \<Rightarrow> run \<Rightarrow> bool" where
  "extends r r' \<longleftrightarrow>
     (\<exists>ts. userContext (fst r') = userContext (fst r) @ ts) \<and>
     partialResponseIndex (fst r) \<le> partialResponseIndex (fst r') \<and>
     (\<exists>new. snd r' = snd r @ new \<and>
        reply_indices new = [partialResponseIndex (fst r) ..< partialResponseIndex (fst r')])"

text \<open>Chunks and an environment for concrete runs: a manifest with the one tool
  \<open>lookupPrice\<close>, whose function returns \<open>249\<close>, and a model that answers with
  \<open>follow_up\<close> when the last message is a tool result and with \<open>first\<close> otherwise.\<close>

definition text_chunk :: "jsstring \<Rightarrow> jsstring option \<Rightarrow> chunk" where
  "text_chunk c fr = \<lparr>delta_content = Some c, delta_tool_calls = None, finish_reason = fr\<rparr>"

definition tool_chunk :: "jsstring option \<Rightarrow> jsstring option \<Rightarrow> jsstring option \<Rightarrow> chunk" where
  "tool_chunk nm args fr =
     \<lparr>delta_content = None, delta_tool_calls = Some [\<lparr>tc_name = nm, tc_arguments = args\<rparr>],
      finish_reason = fr\<rparr>"

definition scripted_env :: "chunk list \<Rightarrow> chunk list \<Rightarrow> env" where
  "scripted_env first follow_up =
     \<lparr>tools = [\<lparr>tool_name = js ''lookupPrice'', tool_say = js ''Let me check.''\<rparr>],
      tool_functions = (\<lambda>nm args. js ''249''),
      create = (\<lambda>messages. if messages \<noteq> [] \<and> t_role (last messages) = js ''function''
                            then follow_up else first)\<rparr>"


text \<open>The streams of the concrete runs: a tool call whose arguments arrive in two
  pieces, the reply that follows a tool result, a reply with a bullet in it, a reply with
  \<open>stop\<close> on both of its chunks, and tool calls whose arguments do not parse.\<close>

definition price_stream :: "chunk list" where
  "price_stream =
     [tool_chunk (Some (js ''lookupPrice'')) None None,
      tool_chunk None (Some (js ''{\"model\":'')) None,
      tool_chunk None (Some (js ''\"pro\"}'')) (Some (js ''tool_calls''))]"

definition price_follow_up :: "chunk list" where
  "price_follow_up = [text_chunk (js ''It costs 249.'') (Some (js ''stop''))]"

definition bullet_stream :: "chunk list" where
  "bullet_stream =
     [text_chunk (js ''Oi '' @ [0x2022]) None, text_chunk (js '' tudo bem?'') (Some (js ''stop''))]"


definition unclosed_stream :: "chunk list" where
  "unclosed_stream =
     [tool_chunk (Some (js ''lookupPrice'')) (Some (js ''{\"a\":{\"b\":1}'')) (Some (js ''tool_calls''))]"

definition unclosed_split_stream :: "chunk list" where
  "unclosed_split_stream =
     [tool_chunk (Some (js ''lookupPrice'')) (Some (js ''{\"model\":'')) None,
      tool_chunk None (Some (js ''{\"pro\"}'')) (Some (js ''tool_calls''))]"

definition single_brace_stream :: "chunk list" where
  "single_brace_stream =
     [tool_chunk (Some (js ''lookupPrice'')) (Some (js ''{\"a\":'')) (Some (js ''tool_calls''))]"

definition user_turn :: "jsstring \<Rightarrow> turn" where
  "user_turn t = \<lparr>t_role = js ''user'', t_name = None, t_content = t\<rparr>"

definition assistant_turn :: "jsstring \<Rightarrow> turn" where
  "assistant_turn t = \<lparr>t_role = js ''assistant'', t_name = None, t_content = t\<rparr>"

definition function_turn :: "jsstring \<Rightarrow> jsstring \<Rightarrow> turn" where
  "function_turn nm t = \<lparr>t_role = js ''function'', t_name = Some nm, t_content = t\<rparr>"


section \<open>Properties of the TranscriptionService\<close>

lemma on_transcripts_append:
  "on_transcripts s (xs @ ys) =
     (case on_transcripts s xs of (s1, out1) \<Rightarrow>
        (case on_transcripts s1 ys of (s2, out2) \<Rightarrow> (s2, out1 @ out2)))"
  by (induction xs arbitrary: s) (auto split: prod.splits)

lemma on_transcript_final_piece:
  assumes "ev_type e \<noteq> js ''UtteranceEnd''" and "is_final e" and "trim (event_text e) \<noteq> []"
    and "\<not> speech_final e"
  shows "on_transcript s e =
           (\<lparr>finalResult = finalResult s @ event_text e @ js '' '', speechFinal = False\<rparr>, [])"
  using assms by (simp add: on_transcript_def Let_def)

lemma on_transcript_speech_final:
  assumes "ev_type e \<noteq> js ''UtteranceEnd''" and "is_final e" and "trim (event_text e) \<noteq> []"
    and "speech_final e"
  shows "on_transcript s e =
           (\<lparr>finalResult = [], speechFinal = True\<rparr>,
            [Transcription (finalResult s @ event_text e @ js '' '')])"
  using assms by (simp add: on_transcript_def Let_def)

lemma on_transcripts_final_pieces:
  assumes "\<forall>e \<in> set es. ev_type e \<noteq> js ''UtteranceEnd'' \<and> is_final e \<and>
             trim (event_text e) \<noteq> [] \<and> \<not> speech_final e"
  shows "finalResult (fst (on_transcripts s es)) =
           finalResult s @ concat (map (\<lambda>e. event_text e @ js '' '') es)
         \<and> snd (on_transcripts s es) = []"
  using assms
proof (induction es arbitrary: s)
  case Nil
  then show ?case by simp
next
  case (Cons e es)
  have step: "on_transcript s e =
      (\<lparr>finalResult = finalResult s @ event_text e @ js '' '', speechFinal = False\<rparr>, [])"
    using Cons.prems by (simp add: on_transcript_final_piece)
  have rest: "\<forall>e \<in> set es. ev_type e \<noteq> js ''UtteranceEnd'' \<and> is_final e \<and>
             trim (event_text e) \<noteq> [] \<and> \<not> speech_final e"
    using Cons.prems by simp
  show ?case
    using Cons.IH [OF rest, of "\<lparr>finalResult = finalResult s @ event_text e @ js '' '', speechFinal = False\<rparr>"]
    by (simp add: step split: prod.splits)
qed

text \<open>
  C1, as the listener has it. Let every event of a sequence be a transcription event (its
  type is not \<open>UtteranceEnd\<close>) with \<open>is_final\<close> set and a transcript that is not blank,
  that is, not empty after \<open>trim()\<close>; let the last one, and only the last, have
  \<open>speech_final\<close> set. Then the listener emits exactly one \<open>transcription\<close>: the
  accumulator it started with (empty after construction and after every emission) followed
  by every transcript in arrival order, each with one trailing space. Afterwards the
  accumulator is empty and the flag is set.
\<close>

theorem final_pieces_emit_one_utterance:
  assumes pieces: "\<forall>e \<in> set es. ev_type e \<noteq> js ''UtteranceEnd'' \<and> is_final e \<and>
             trim (event_text e) \<noteq> [] \<and> \<not> speech_final e"
    and last: "ev_type e_last \<noteq> js ''UtteranceEnd''" "is_final e_last"
      "trim (event_text e_last) \<noteq> []" "speech_final e_last"
  shows "on_transcripts s (es @ [e_last]) =
           (\<lparr>finalResult = [], speechFinal = True\<rparr>,
            [Transcription (finalResult s @ concat (map (\<lambda>e. event_text e @ js '' '') (es @ [e_last])))])"
proof -
  obtain s1 out1 where run: "on_transcripts s es = (s1, out1)"
    by (cases "on_transcripts s es")
  from on_transcripts_final_pieces [OF pieces, of s] run
  have acc: "finalResult s1 = finalResult s @ concat (map (\<lambda>e. event_text e @ js '' '') es)"
    and out: "out1 = []"
    by simp_all
  show ?thesis
    by (simp add: on_transcripts_append run out acc on_transcript_speech_final [OF last])
qed

theorem final_pieces_emit_one_utterance_witness:
  "on_transcripts TranscriptionService_new
     [results_event True False (js ''quero dois''), results_event True True (js ''airpods pro'')] =
   (\<lparr>finalResult = [], speechFinal = True\<rparr>, [Transcription (js ''quero dois airpods pro '')])"
  using final_pieces_emit_one_utterance
    [of "[results_event True False (js ''quero dois'')]" "results_event True True (js ''airpods pro'')"
        TranscriptionService_new]
  by (simp add: results_event_def event_text_def trim_def is_white_space_def js_def
        TranscriptionService_new_def)

text \<open>
  C1 as it is stated asks only for a non-empty text. A final event whose transcript is a
  single space is non-empty, yet the guard \<open>text.trim().length > 0\<close> skips it: with
  \<open>speech_final\<close> set on it nothing is emitted and the accumulator keeps the earlier text.
\<close>

theorem blank_speech_final_emits_nothing:
  "is_final (results_event True False (js ''oi'')) \<and>
   event_text (results_event True False (js ''oi'')) \<noteq> [] \<and>
   is_final (results_event True True (js '' '')) \<and>
   event_text (results_event True True (js '' '')) \<noteq> [] \<and>
   speech_final (results_event True True (js '' '')) \<and>
   on_transcripts TranscriptionService_new
     [results_event True False (js ''oi''), results_event True True (js '' '')] =
   (\<lparr>finalResult = js ''oi '', speechFinal = False\<rparr>, [])"
  by (simp add: results_event_def event_text_def trim_def is_white_space_def js_def
        TranscriptionService_new_def on_transcript_def)

text \<open>A \<open>Results\<close> message reaches the listener of \<open>Transcript\<close>; an \<open>UtteranceEnd\<close>
  message reaches no listener.\<close>

lemma on_message_results:
  "ev_type m = js ''Results'' \<Longrightarrow> on_message s m = on_transcript s m"
  by (simp add: on_message_def event_of_message_def setupEventListeners_def js_def)

lemma on_message_utterance_end:
  "ev_type m = js ''UtteranceEnd'' \<Longrightarrow> on_message s m = (s, [])"
  by (simp add: on_message_def event_of_message_def setupEventListeners_def js_def)

text \<open>
  The fallback itself is written out in the listener of \<open>Transcript\<close> (lines 69 to 86):
  were that listener ever called with an event of type \<open>UtteranceEnd\<close> while the flag is
  false and the accumulator is not empty, it would emit the accumulated text and empty
  the accumulator.
\<close>

lemma utterance_end_branch_of_listener:
  assumes "ev_type e = js ''UtteranceEnd''" and "\<not> speechFinal s" and "finalResult s \<noteq> []"
  shows "on_transcript s e = (s\<lparr>finalResult := []\<rparr>, [Transcription (finalResult s)])"
  using assms by (simp add: on_transcript_def)

text \<open>
  C2 on the service as it is wired. A final piece \<open>bom dia\<close> that is not speech-final
  leaves the flag false and the accumulator filled. The end-of-segment message that
  follows is emitted by the connection under the event \<open>UtteranceEnd\<close>, on which
  \<open>setupEventListeners\<close> registers nothing: no \<open>transcription\<close> is emitted and the
  accumulator keeps its text.
\<close>

theorem utterance_end_signal_emits_nothing:
  "on_messages TranscriptionService_new
     [results_event True False (js ''bom dia''), utterance_end_message] =
   (\<lparr>finalResult = js ''bom dia '', speechFinal = False\<rparr>, [])"
  by code_simp


section \<open>Properties of the connection handler\<close>

text \<open>
  C7, as the handler has it. Interim text longer than five code units that arrives while
  at least one mark is outstanding sends exactly one \<open>clear\<close> message; with no mark
  outstanding, or a text of five code units or fewer, or no text, the handler does
  nothing. In either case the list of marks is left as it is: the handler has no statement
  that changes it. A mark leaves the list when the transport acknowledges it by name.
\<close>

theorem interruption_sends_clear_keeps_marks:
  "(marks c \<noteq> [] \<and> length t > 5 \<longrightarrow>
      on_utterance c (Some t) = c\<lparr>sent := sent c @ [Clear]\<rparr>) \<and>
   (marks c = [] \<or> length t \<le> 5 \<longrightarrow> on_utterance c (Some t) = c) \<and>
   on_utterance c None = c \<and>
   marks (on_utterance c (Some t)) = marks c \<and>
   set (marks (on_mark c nm)) = set (marks c) - {nm}"
  by (auto simp: on_utterance_def on_mark_def)

theorem interruption_sends_clear_keeps_marks_witness:
  "on_utterance \<lparr>marks = [js ''m1'', js ''m2''], sent = []\<rparr> (Some (js ''espera um pouco'')) =
     \<lparr>marks = [js ''m1'', js ''m2''], sent = [Clear]\<rparr> \<and>
   on_utterance \<lparr>marks = [], sent = []\<rparr> (Some (js ''espera um pouco'')) = \<lparr>marks = [], sent = []\<rparr> \<and>
   on_utterance \<lparr>marks = [js ''m1''], sent = []\<rparr> (Some (js ''hum'')) = \<lparr>marks = [js ''m1''], sent = []\<rparr>"
  using interruption_sends_clear_keeps_marks [of "\<lparr>marks = [js ''m1'', js ''m2''], sent = []\<rparr>" "js ''espera um pouco''"]
    interruption_sends_clear_keeps_marks [of "\<lparr>marks = [], sent = []\<rparr>" "js ''espera um pouco''"]
    interruption_sends_clear_keeps_marks [of "\<lparr>marks = [js ''m1''], sent = []\<rparr>" "js ''hum''"]
  by (simp add: js_def)

text \<open>
  C7 as it is stated has the interruption clear the outstanding marks. With one mark
  outstanding and the interim text \<open>hello world\<close> the handler sends \<open>clear\<close> and the mark
  is still outstanding.
\<close>

theorem interruption_leaves_marks_outstanding:
  "on_utterance \<lparr>marks = [js ''m1''], sent = []\<rparr> (Some (js ''hello world'')) =
     \<lparr>marks = [js ''m1''], sent = [Clear]\<rparr>"
  by (simp add: on_utterance_def js_def)


section \<open>Properties of validateFunctionArgs\<close>

text \<open>The parser on some argument texts: nested values, white space, numbers with
  fraction and exponent, a repeated key, and texts that are not JSON.\<close>

lemma JSON_parse_nested:
  "JSON_parse (js ''{\"a\": [1, 2.5, -3e2, true, null, {\"b\": \"x\"}], \"a\": [[[]]]} '') =
     Inr (JObject [(js ''a'', JArray [JArray [JArray []]])])"
  by code_simp

lemma JSON_parse_values:
  "JSON_parse (js ''[1, 2.5, -3e2, true, null, {\"b\": \"x\"}]'') =
     Inr (JArray [JNumber 1, JNumber (5 / 2), JNumber (- 300), JBool True, JNull,
                  JObject [(js ''b'', JString (js ''x''))]])"
  by code_simp

lemma JSON_parse_rejects:
  "JSON_parse [] = Inl SyntaxError"
  "JSON_parse (js ''{'') = Inl SyntaxError"
  "JSON_parse (js ''[1,]'') = Inl SyntaxError"
  "JSON_parse (js ''01'') = Inl SyntaxError"
  "JSON_parse (js ''{\"a\":1} x'') = Inl SyntaxError"
  by code_simp+

text \<open>
  C4. For the argument string made of two copies of \<open>{"a":1}\<close> the first
  \<open>JSON.parse\<close> fails, the text up to the first closing brace is parsed instead, and
  the validator returns the object \<open>{a: 1}\<close> after logging its warning.
\<close>

theorem duplicated_arguments_recover:
  "validateFunctionArgs (js ''{\"a\":1}{\"a\":1}'') =
     (Inr (Some (JObject [(js ''a'', JNumber 1)])), [Warning (js ''{\"a\":1}{\"a\":1}'')])"
  by code_simp


section \<open>Properties of the GptService\<close>

subsection \<open>Every method extends the run\<close>

lemma reply_indices_append: "reply_indices (xs @ ys) = reply_indices xs @ reply_indices ys"
  by (induction xs rule: reply_indices.induct) simp_all

lemma extends_refl: "extends r r"
  by (simp add: extends_def)

lemma upt_append_upt: "i \<le> j \<Longrightarrow> j \<le> k \<Longrightarrow> [i..<j] @ [j..<k] = [i..<k]"
  by (metis le_Suc_ex upt_add_eq_append)

lemma extends_trans:
  assumes "extends a b" and "extends b c"
  shows "extends a c"
proof -
  from assms(1) obtain ts1 new1 where
    ab: "userContext (fst b) = userContext (fst a) @ ts1"
      "partialResponseIndex (fst a) \<le> partialResponseIndex (fst b)"
      "snd b = snd a @ new1"
      "reply_indices new1 = [partialResponseIndex (fst a) ..< partialResponseIndex (fst b)]"
    by (auto simp: extends_def)
  from assms(2) obtain ts2 new2 where
    bc: "userContext (fst c) = userContext (fst b) @ ts2"
      "partialResponseIndex (fst b) \<le> partialResponseIndex (fst c)"
      "snd c = snd b @ new2"
      "reply_indices new2 = [partialResponseIndex (fst b) ..< partialResponseIndex (fst c)]"
    by (auto simp: extends_def)
  have "reply_indices (new1 @ new2) = [partialResponseIndex (fst a) ..< partialResponseIndex (fst c)]"
    by (simp add: reply_indices_append ab(4) bc(4) upt_append_upt [OF ab(2) bc(2)])
  moreover have "snd c = snd a @ (new1 @ new2)"
    by (simp add: ab(3) bc(3))
  moreover have "userContext (fst c) = userContext (fst a) @ (ts1 @ ts2)"
    by (simp add: ab(1) bc(1))
  ultimately show ?thesis
    unfolding extends_def using ab(2) bc(2) by (metis le_trans)
qed

lemma extends_effects:
  assumes "reply_indices new = []" and "userContext svc' = userContext svc @ ts"
    and "partialResponseIndex svc' = partialResponseIndex svc"
  shows "extends (svc, eff) (svc', eff @ new)"
  using assms by (simp add: extends_def)

lemma extends_reply:
  "extends (svc, eff)
     (svc\<lparr>partialResponseIndex := partialResponseIndex svc + 1\<rparr>,
      eff @ [GptReply (Some (partialResponseIndex svc)) p c])"
  by (simp add: extends_def)

lemma validate_warnings: "reply_indices (snd (validateFunctionArgs a)) = []"
  by (simp add: validateFunctionArgs_def split: sum.splits)

lemma updateUserContext_fields:
  "\<exists>t. userContext (updateUserContext svc nm rl tx) = userContext svc @ [t]"
  "partialResponseIndex (updateUserContext svc nm rl tx) = partialResponseIndex svc"
  by (simp_all add: updateUserContext_def)

lemma consume_extends:
  assumes rec: "\<And>t c rl nm r0. extends r0 (run_of (rec t c rl nm r0))"
  shows "extends r (run_of (consume mk rec ev ic l chs r))"
proof (induction chs arbitrary: l r)
  case Nil
  show ?case by (simp add: extends_refl)
next
  case (Cons ch chs)
  define content where "content = (case delta_content ch of None \<Rightarrow> [] | Some c \<Rightarrow> c)"
  define l1 where "l1 = (case delta_tool_calls ch of None \<Rightarrow> l | Some tcs \<Rightarrow> collectToolInformation tcs l)"
  show ?case
  proof (cases "finish_reason ch = Some (js ''tool_calls'')")
    case True
    obtain res w where v: "validateFunctionArgs (functionArgs l1) = (res, w)"
      by (cases "validateFunctionArgs (functionArgs l1)")
    have w: "reply_indices w = []"
      using validate_warnings [of "functionArgs l1"] v by simp
    show ?thesis
    proof (cases res)
      case (Inl e)
      with True v have "consume mk rec ev ic l (ch # chs) r = Threw e (fst r, snd r @ w)"
        by (simp add: l1_def Let_def)
      moreover have "extends r (fst r, snd r @ w)"
        using extends_effects [of w "fst r" "fst r" "[]" "snd r"] w by simp
      ultimately show ?thesis by (simp only: run_of.simps)
    next
      case (Inr validatedArgs)
      show ?thesis
      proof (cases "find (\<lambda>t. tool_name t = functionName l1) (tools ev)")
        case None
        with True v Inr have "consume mk rec ev ic l (ch # chs) r = Threw TypeError (fst r, snd r @ w)"
          by (simp add: l1_def Let_def)
        moreover have "extends r (fst r, snd r @ w)"
          using extends_effects [of w "fst r" "fst r" "[]" "snd r"] w by simp
        ultimately show ?thesis by (simp only: run_of.simps)
      next
        case (Some toolData)
        define eff1 where "eff1 = snd r @ w @ [GptReply None (tool_say toolData) ic]"
        have e1: "extends r (fst r, eff1)"
          using extends_effects [of "w @ [GptReply None (tool_say toolData) ic]" "fst r" "fst r" "[]" "snd r"] w
          by (simp add: eff1_def reply_indices_append)
        show ?thesis
        proof (cases "availableFunctions ev (functionName l1)")
          case None
          with True v Inr Some have "consume mk rec ev ic l (ch # chs) r = Threw TypeError (fst r, eff1)"
            by (simp add: l1_def Let_def eff1_def)
          then show ?thesis using e1 by (simp only: run_of.simps)
        next
          case f: (Some f)
          define svc1 where "svc1 = updateUserContext (fst r) (functionName l1) (js ''function'') (f validatedArgs)"
          define eff2 where "eff2 = eff1 @ [ToolCall (functionName l1) validatedArgs]"
          define out0 where "out0 = rec (f validatedArgs) ic (js ''function'') (functionName l1) (svc1, eff2)"
          obtain t where t: "userContext svc1 = userContext (fst r) @ [t]"
            using updateUserContext_fields(1) svc1_def by blast
          have e2: "extends r (svc1, eff2)"
            using extends_effects [of "w @ [GptReply None (tool_say toolData) ic, ToolCall (functionName l1) validatedArgs]"
                svc1 "fst r" "[t]" "snd r"] w t
            by (simp add: eff1_def eff2_def reply_indices_append svc1_def updateUserContext_fields(2))
          have e3: "extends r (run_of out0)"
            using extends_trans [OF e2 rec] by (simp add: out0_def)
          have step: "consume mk rec ev ic l (ch # chs) r =
                        (case out0 of Pending r' \<Rightarrow> Pending r' | Threw e r' \<Rightarrow> Threw e r'
                         | Done u r' \<Rightarrow> consume mk rec ev ic l1 chs r')"
            using True v Inr Some f
            by (simp add: l1_def Let_def eff1_def eff2_def svc1_def out0_def split: outcome.split)
          show ?thesis
          proof (cases out0)
            case (Done u r')
            with e3 have "extends r r'" by simp
            from extends_trans [OF this Cons.IH [of r' l1]] show ?thesis
              by (simp only: step Done outcome.case)
          next
            case (Threw e r')
            with e3 show ?thesis by (simp only: step outcome.case run_of.simps)
          next
            case (Pending r')
            with e3 show ?thesis by (simp only: step outcome.case run_of.simps)
          qed
        qed
      qed
    qed
  next
    case False
    define l2 where "l2 = l1\<lparr>completeResponse := completeResponse l1 @ content,
                       partialResponse := partialResponse l1 @ content\<rparr>"
    show ?thesis
    proof (cases "slice (trim content) (- 1) = mk \<or> finish_reason ch = Some (js ''stop'')")
      case True
      with False
      have "consume mk rec ev ic l (ch # chs) r =
              consume mk rec ev ic (l2\<lparr>partialResponse := []\<rparr>) chs
                ((fst r)\<lparr>partialResponseIndex := partialResponseIndex (fst r) + 1\<rparr>,
                 snd r @ [GptReply (Some (partialResponseIndex (fst r))) (partialResponse l2) ic])"
        by (simp add: l1_def l2_def content_def Let_def)
      moreover have "extends r
                ((fst r)\<lparr>partialResponseIndex := partialResponseIndex (fst r) + 1\<rparr>,
                 snd r @ [GptReply (Some (partialResponseIndex (fst r))) (partialResponse l2) ic])"
        using extends_reply [of "fst r" "snd r" "partialResponse l2" ic] by simp
      ultimately show ?thesis
        using extends_trans [OF _ Cons.IH] by (simp only:)
    next
      case no: False
      with False have "consume mk rec ev ic l (ch # chs) r = consume mk rec ev ic l2 chs r"
        by (simp add: l1_def l2_def content_def Let_def)
      with Cons.IH show ?thesis by (simp only:)
    qed
  qed
qed

lemma completion_with_step_extends:
  assumes rec: "\<And>t c rl nm r0. extends r0 (run_of (completion_with n mk ev t c rl nm r0))"
  shows "extends (updateUserContext (fst r) name role input,
                  snd r @ [CreateCompletion (userContext (updateUserContext (fst r) name role input))])
                 (run_of (completion_with (Suc n) mk ev input ic role name r))"
proof -
  define svc1 where "svc1 = updateUserContext (fst r) name role input"
  define eff1 where "eff1 = snd r @ [CreateCompletion (userContext svc1)]"
  define out1 where
    "out1 = consume mk (completion_with n mk ev) ev ic locals_init (create ev (userContext svc1)) (svc1, eff1)"
  have e2: "extends (svc1, eff1) (run_of out1)"
    unfolding out1_def by (rule consume_extends) (rule rec)
  have step: "completion_with (Suc n) mk ev input ic role name r =
                (case out1 of Pending r' \<Rightarrow> Pending r' | Threw e r' \<Rightarrow> Threw e r'
                 | Done l r' \<Rightarrow> Done () ((fst r')\<lparr>userContext := userContext (fst r') @
                     [\<lparr>t_role = js ''assistant'', t_name = None, t_content = completeResponse l\<rparr>]\<rparr>, snd r'))"
    by (simp add: svc1_def eff1_def out1_def Let_def)
  have "extends (svc1, eff1) (run_of (completion_with (Suc n) mk ev input ic role name r))"
  proof (cases out1)
    case (Done l r')
    have "extends r' ((fst r')\<lparr>userContext := userContext (fst r') @
                   [\<lparr>t_role = js ''assistant'', t_name = None, t_content = completeResponse l\<rparr>]\<rparr>, snd r')"
      using extends_effects [of "[]" "(fst r')\<lparr>userContext := userContext (fst r') @
                   [\<lparr>t_role = js ''assistant'', t_name = None, t_content = completeResponse l\<rparr>]\<rparr>" "fst r'" _ "snd r'"]
      by simp
    moreover from e2 Done have "extends (svc1, eff1) r'" by simp
    ultimately show ?thesis
      using extends_trans by (simp only: step Done outcome.case run_of.simps)
  next
    case (Threw e r')
    with e2 show ?thesis by (simp only: step outcome.case run_of.simps)
  next
    case (Pending r')
    with e2 show ?thesis by (simp only: step outcome.case run_of.simps)
  qed
  then show ?thesis by (simp only: svc1_def eff1_def)
qed

lemma completion_with_extends:
  "extends r (run_of (completion_with n mk ev input ic role name r))"
proof (induction n arbitrary: input ic role name r)
  case 0
  show ?case by (simp add: extends_refl)
next
  case (Suc n)
  obtain t where t: "userContext (updateUserContext (fst r) name role input) = userContext (fst r) @ [t]"
    using updateUserContext_fields(1) by blast
  have e1: "extends r (updateUserContext (fst r) name role input,
                  snd r @ [CreateCompletion (userContext (updateUserContext (fst r) name role input))])"
    using extends_effects [of "[CreateCompletion (userContext (updateUserContext (fst r) name role input))]"
        "updateUserContext (fst r) name role input" "fst r" "[t]" "snd r"] t
    by (simp add: updateUserContext_fields(2))
  show ?case
    by (rule extends_trans [OF e1]) (rule completion_with_step_extends, rule Suc.IH)
qed

lemma completion_with_Suc_extends:
  "extends (updateUserContext (fst r) name role input,
            snd r @ [CreateCompletion (userContext (updateUserContext (fst r) name role input))])
           (run_of (completion_with (Suc n) mk ev input ic role name r))"
  by (rule completion_with_step_extends) (rule completion_with_extends)

lemma userContext_updateUserContext:
  "userContext (updateUserContext svc nm rl tx) =
     userContext svc @ [\<lparr>t_role = rl, t_name = (if nm \<noteq> js ''user'' then Some nm else None), t_content = tx\<rparr>]"
  by (simp add: updateUserContext_def)


subsection \<open>The round trip of a tool call\<close>

text \<open>
  C3 on a concrete call. The stream names the configured tool \<open>lookupPrice\<close>, carries
  the arguments \<open>{"model":"pro"}\<close> in two pieces and ends with \<open>finish_reason\<close>
  \<open>tool_calls\<close>; the model answers the tool result with a plain reply. The announcement
  is emitted before the tool is called and there is one follow-up call of the model, but
  the tool's return value is in the log twice: the turn appended after the tool returned,
  and the same turn appended again by the recursive call of \<open>completion\<close>, whose first
  statement is \<open>updateUserContext\<close>. The outer call then appends an assistant turn with
  the empty text it collected itself.
\<close>

theorem tool_result_is_appended_twice:
  "completion (Suc (Suc 0)) (scripted_env price_stream price_follow_up)
     (js ''how much'') 0 (js ''user'') (js ''user'') (GptService_new None, []) =
   Done ()
     (\<lparr>userContext = loadPromptFromFile None @
         [user_turn (js ''how much''),
          function_turn (js ''lookupPrice'') (js ''249''),
          function_turn (js ''lookupPrice'') (js ''249''),
          assistant_turn (js ''It costs 249.''),
          assistant_turn []],
       partialResponseIndex = 1\<rparr>,
      [CreateCompletion (loadPromptFromFile None @ [user_turn (js ''how much'')]),
       GptReply None (js ''Let me check.'') 0,
       ToolCall (js ''lookupPrice'') (Some (JObject [(js ''model'', JString (js ''pro''))])),
       CreateCompletion (loadPromptFromFile None @
         [user_turn (js ''how much''),
          function_turn (js ''lookupPrice'') (js ''249''),
          function_turn (js ''lookupPrice'') (js ''249'')]),
       GptReply (Some 0) (js ''It costs 249.'') 0])"
  by code_simp

text \<open>
  The same holds of every tool call. Whenever the loop reaches a chunk with
  \<open>finish_reason\<close> \<open>tool_calls\<close> whose collected name is in the manifest and whose
  collected arguments pass the validator, the log holds the turn with the tool's return
  value twice in a row, right after the log the chunk found: however the rest of the call
  goes, and as soon as the recursion is allowed one level.
\<close>

lemma tool_call_appends_result_twice:
  assumes fin: "finish_reason ch = Some (js ''tool_calls'')"
    and l1: "l1 = (case delta_tool_calls ch of None \<Rightarrow> l | Some tcs \<Rightarrow> collectToolInformation tcs l)"
    and v: "validateFunctionArgs (functionArgs l1) = (Inr a, w)"
    and td: "find (\<lambda>t. tool_name t = functionName l1) (tools ev) = Some toolData"
    and t: "t = \<lparr>t_role = js ''function'',
                  t_name = (if functionName l1 \<noteq> js ''user'' then Some (functionName l1) else None),
                  t_content = tool_functions ev (functionName l1) a\<rparr>"
  shows "\<exists>ts. userContext (fst (run_of (consume mk (completion_with (Suc n) mk ev) ev ic l (ch # chs) r))) =
              userContext (fst r) @ [t, t] @ ts"
proof -
  let ?f = "tool_functions ev (functionName l1)"
  let ?svc1 = "updateUserContext (fst r) (functionName l1) (js ''function'') (?f a)"
  let ?eff2 = "snd r @ w @ [GptReply None (tool_say toolData) ic] @ [ToolCall (functionName l1) a]"
  define out0 where
    "out0 = completion_with (Suc n) mk ev (?f a) ic (js ''function'') (functionName l1) (?svc1, ?eff2)"
  from td obtain i where i: "i < length (tools ev)" "tool_name (tools ev ! i) = functionName l1"
    by (auto simp: find_Some_iff)
  have "functionName l1 \<in> set (map tool_name (tools ev))"
    using i(2) nth_mem [OF i(1)] by (metis image_eqI set_map)
  then have av: "availableFunctions ev (functionName l1) = Some ?f"
    by (simp add: availableFunctions_def)
  have uc1: "userContext ?svc1 = userContext (fst r) @ [t]"
    by (simp add: userContext_updateUserContext t)
  have step: "consume mk (completion_with (Suc n) mk ev) ev ic l (ch # chs) r =
                (case out0 of Pending r' \<Rightarrow> Pending r' | Threw e r' \<Rightarrow> Threw e r'
                 | Done u r' \<Rightarrow> consume mk (completion_with (Suc n) mk ev) ev ic l1 chs r')"
    using fin l1 v td av
    by (simp add: Let_def out0_def del: completion_with.simps split: outcome.split)
  from completion_with_Suc_extends [of "(?svc1, ?eff2)" "functionName l1" "js ''function''" "?f a" n mk ev ic]
  obtain ts0 where uc2: "userContext (fst (run_of out0)) = userContext (fst r) @ [t, t] @ ts0"
    by (auto simp: extends_def userContext_updateUserContext uc1 t out0_def simp del: completion_with.simps)
  show ?thesis
  proof (cases out0)
    case (Threw e r')
    with uc2 have "\<exists>ts. userContext (fst r') = userContext (fst r) @ [t, t] @ ts"
      by auto
    then show ?thesis by (simp only: step Threw outcome.case run_of.simps)
  next
    case (Pending r')
    with uc2 have "\<exists>ts. userContext (fst r') = userContext (fst r) @ [t, t] @ ts"
      by auto
    then show ?thesis by (simp only: step Pending outcome.case run_of.simps)
  next
    case (Done u r')
    have "extends r' (run_of (consume mk (completion_with (Suc n) mk ev) ev ic l1 chs r'))"
      by (rule consume_extends) (rule completion_with_extends)
    then obtain ts1 where
      "userContext (fst (run_of (consume mk (completion_with (Suc n) mk ev) ev ic l1 chs r'))) =
         userContext (fst r') @ ts1"
      by (auto simp: extends_def)
    with uc2 Done
    have "\<exists>ts. userContext (fst (run_of (consume mk (completion_with (Suc n) mk ev) ev ic l1 chs r'))) =
              userContext (fst r) @ [t, t] @ ts"
      by simp
    then show ?thesis by (simp only: step Done outcome.case)
  qed
qed


subsection \<open>Tool arguments that do not parse\<close>

lemma consume_append:
  "consume mk rec ev ic l (xs @ ys) r =
     (case consume mk rec ev ic l xs r of
        Pending r' \<Rightarrow> Pending r'
      | Threw e r' \<Rightarrow> Threw e r'
      | Done l' r' \<Rightarrow> consume mk rec ev ic l' ys r')"
proof (induction xs arbitrary: l r)
  case Nil
  then show ?case by simp
next
  case (Cons ch xs)
  show ?case
    by (simp add: Cons.IH Let_def split: prod.splits sum.splits option.splits outcome.splits)
qed

lemma consume_unrecoverable:
  assumes fin: "finish_reason ch = Some (js ''tool_calls'')"
    and args: "args = functionArgs (case delta_tool_calls ch of None \<Rightarrow> l
                                     | Some tcs \<Rightarrow> collectToolInformation tcs l)"
    and p1: "JSON_parse args = Inl e1"
    and two: "indexOf args (js ''{'') \<noteq> lastIndexOf args (js ''{'')"
    and p2: "JSON_parse (substring args (indexOf args []) (indexOf args (js ''}'') + 1)) = Inl e2"
  shows "consume mk rec ev ic l (ch # chs) r = Threw e2 (fst r, snd r @ [Warning args])"
proof -
  have "validateFunctionArgs args = (Inl e2, [Warning args])"
    using p1 two p2 by (simp add: validateFunctionArgs_def)
  then show ?thesis
    using fin args by (simp add: Let_def)
qed

text \<open>
  C5, as the code has it. Let the stream reach a chunk with \<open>finish_reason\<close>
  \<open>tool_calls\<close> after chunks \<open>pre\<close> that were consumed without incident, and let the
  collected argument string fail to parse, have an opening brace at two different places
  (the condition under which the validator tries again), and fail to parse again when
  cut after its first closing brace. Then the warning is logged and the SyntaxError of the
  second \<open>JSON.parse\<close> leaves \<open>completion\<close>: the service is as it was when the chunk
  arrived, so no tool turn and no assistant turn is appended, and no effect follows the
  warning, so the tool function is not executed and nothing is announced.
\<close>

theorem unrecoverable_arguments_throw:
  assumes stream: "create ev (userContext (updateUserContext svc name role input)) = pre @ ch # chs"
    and pre: "consume mk (completion_with n mk ev) ev ic locals_init pre
                (updateUserContext svc name role input,
                 eff @ [CreateCompletion (userContext (updateUserContext svc name role input))])
              = Done l r1"
    and fin: "finish_reason ch = Some (js ''tool_calls'')"
    and args: "args = functionArgs (case delta_tool_calls ch of None \<Rightarrow> l
                                     | Some tcs \<Rightarrow> collectToolInformation tcs l)"
    and p1: "JSON_parse args = Inl e1"
    and two: "indexOf args (js ''{'') \<noteq> lastIndexOf args (js ''{'')"
    and p2: "JSON_parse (substring args (indexOf args []) (indexOf args (js ''}'') + 1)) = Inl e2"
  shows "completion_with (Suc n) mk ev input ic role name (svc, eff) =
           Threw e2 (fst r1, snd r1 @ [Warning args])"
  using consume_unrecoverable [OF fin args p1 two p2, of mk "completion_with n mk ev" ev ic chs r1]
  by (simp add: stream consume_append pre Let_def)

theorem unrecoverable_arguments_throw_witness:
  "completion_with (Suc 0) gpt_service_marker (scripted_env unclosed_split_stream price_follow_up)
     (js ''how much'') 0 (js ''user'') (js ''user'') (GptService_new None, []) =
   Threw SyntaxError
     (updateUserContext (GptService_new None) (js ''user'') (js ''user'') (js ''how much''),
      [CreateCompletion (loadPromptFromFile None @ [user_turn (js ''how much'')]),
       Warning (js ''{\"model\":{\"pro\"}'')])"
proof -
  let ?ev = "scripted_env unclosed_split_stream price_follow_up"
  let ?svc1 = "updateUserContext (GptService_new None) (js ''user'') (js ''user'') (js ''how much'')"
  let ?c1 = "tool_chunk (Some (js ''lookupPrice'')) (Some (js ''{\"model\":'')) None"
  let ?c2 = "tool_chunk None (Some (js ''{\"pro\"}'')) (Some (js ''tool_calls''))"
  let ?l = "\<lparr>completeResponse = [], partialResponse = [], functionName = js ''lookupPrice'',
             functionArgs = js ''{\"model\":''\<rparr>"
  let ?args = "js ''{\"model\":{\"pro\"}''"
  have stream: "create ?ev (userContext ?svc1) = [?c1] @ ?c2 # []"
    by code_simp
  have pre: "consume gpt_service_marker (completion_with 0 gpt_service_marker ?ev) ?ev 0 locals_init [?c1]
               (?svc1, [] @ [CreateCompletion (userContext ?svc1)]) =
             Done ?l (?svc1, [CreateCompletion (loadPromptFromFile None @ [user_turn (js ''how much'')])])"
    by code_simp
  have fin: "finish_reason ?c2 = Some (js ''tool_calls'')"
    by code_simp
  have args: "?args = functionArgs (case delta_tool_calls ?c2 of None \<Rightarrow> ?l
                                     | Some tcs \<Rightarrow> collectToolInformation tcs ?l)"
    by code_simp
  have p1: "JSON_parse ?args = Inl SyntaxError"
    by code_simp
  have two: "indexOf ?args (js ''{'') \<noteq> lastIndexOf ?args (js ''{'')"
    by code_simp
  have p2: "JSON_parse (substring ?args (indexOf ?args []) (indexOf ?args (js ''}'') + 1)) = Inl SyntaxError"
    by code_simp
  show ?thesis
    using unrecoverable_arguments_throw [OF stream pre fin args p1 two p2] by simp
qed

text \<open>
  C5 as it is stated has the call suppressed without an error reaching the caller. The
  argument string \<open>{"a":{"b":1}\<close> fails to parse, and so does its text up to the first
  closing brace; \<open>completion\<close> then ends by throwing the SyntaxError.
\<close>

theorem unparsable_arguments_raise:
  "JSON_parse (js ''{\"a\":{\"b\":1}'') = Inl SyntaxError \<and>
   JSON_parse (substring (js ''{\"a\":{\"b\":1}'') (indexOf (js ''{\"a\":{\"b\":1}'') [])
                 (indexOf (js ''{\"a\":{\"b\":1}'') (js ''}'') + 1)) = Inl SyntaxError \<and>
   completion (Suc (Suc 0)) (scripted_env unclosed_stream price_follow_up)
     (js ''how much'') 0 (js ''user'') (js ''user'') (GptService_new None, []) =
   Threw SyntaxError
     (\<lparr>userContext = loadPromptFromFile None @ [user_turn (js ''how much'')],
       partialResponseIndex = 0\<rparr>,
      [CreateCompletion (loadPromptFromFile None @ [user_turn (js ''how much'')]),
       Warning (js ''{\"a\":{\"b\":1}'')])"
  by code_simp

text \<open>
  When the string that fails to parse has an opening brace at one place only, or none,
  the validator tries nothing more and returns \<open>undefined\<close>; the tool function is then
  called with \<open>undefined\<close> and its result is appended like any other.
\<close>

lemma validate_without_second_brace:
  assumes "JSON_parse args = Inl e" and "indexOf args (js ''{'') = lastIndexOf args (js ''{'')"
  shows "validateFunctionArgs args = (Inr None, [Warning args])"
  using assms by (simp add: validateFunctionArgs_def)

lemma single_brace_arguments_run_tool:
  "completion (Suc (Suc 0)) (scripted_env single_brace_stream price_follow_up)
     (js ''how much'') 0 (js ''user'') (js ''user'') (GptService_new None, []) =
   Done ()
     (\<lparr>userContext = loadPromptFromFile None @
         [user_turn (js ''how much''),
          function_turn (js ''lookupPrice'') (js ''249''),
          function_turn (js ''lookupPrice'') (js ''249''),
          assistant_turn (js ''It costs 249.''),
          assistant_turn []],
       partialResponseIndex = 1\<rparr>,
      [CreateCompletion (loadPromptFromFile None @ [user_turn (js ''how much'')]),
       Warning (js ''{\"a\":''),
       GptReply None (js ''Let me check.'') 0,
       ToolCall (js ''lookupPrice'') None,
       CreateCompletion (loadPromptFromFile None @
         [user_turn (js ''how much''),
          function_turn (js ''lookupPrice'') (js ''249''),
          function_turn (js ''lookupPrice'') (js ''249'')]),
       GptReply (Some 0) (js ''It costs 249.'') 0])"
  by code_simp


subsection \<open>Fragments and their indices\<close>

lemma slice_last_length: "length (slice s (- 1)) \<le> 1"
  by (simp add: slice_def Let_def)

lemma gpt_service_marker_never_matches: "slice (trim content) (- 1) \<noteq> gpt_service_marker"
proof
  assume "slice (trim content) (- 1) = gpt_service_marker"
  then have "length (slice (trim content) (- 1)) = 3"
    by (simp add: gpt_service_marker_def)
  with slice_last_length [of "trim content"] show False by simp
qed

text \<open>So in services/gpt-service.js a chunk whose \<open>finish_reason\<close> is neither
  \<open>tool_calls\<close> nor \<open>stop\<close> only adds its content to the two buffers.\<close>

lemma gpt_service_chunk_without_stop_emits_nothing:
  assumes "finish_reason ch \<noteq> Some (js ''tool_calls'')" and "finish_reason ch \<noteq> Some (js ''stop'')"
  shows "consume gpt_service_marker rec ev ic l (ch # chs) r =
           consume gpt_service_marker rec ev ic
             ((case delta_tool_calls ch of None \<Rightarrow> l | Some tcs \<Rightarrow> collectToolInformation tcs l)
                \<lparr>completeResponse :=
                   completeResponse (case delta_tool_calls ch of None \<Rightarrow> l | Some tcs \<Rightarrow> collectToolInformation tcs l)
                   @ (case delta_content ch of None \<Rightarrow> [] | Some c \<Rightarrow> c),
                 partialResponse :=
                   partialResponse (case delta_tool_calls ch of None \<Rightarrow> l | Some tcs \<Rightarrow> collectToolInformation tcs l)
                   @ (case delta_content ch of None \<Rightarrow> [] | Some c \<Rightarrow> c)\<rparr>)
             chs r"
  using assms by (simp add: Let_def gpt_service_marker_never_matches)

text \<open>
  C6 on services/gpt-service.js. The test \<open>content.trim().slice(-1) === <marker>\<close>
  compares one code unit at most with a literal of three code units, so it is false for
  every chunk, and a fragment is emitted only by a chunk whose \<open>finish_reason\<close> is
  \<open>stop\<close>. A reply whose first chunk ends with the bullet U+2022 and whose second chunk
  carries \<open>stop\<close> is emitted as one fragment holding the whole reply.
\<close>

theorem bullet_reply_is_one_fragment:
  "completion (Suc 0) (scripted_env bullet_stream [])
     (js ''ola'') 0 (js ''user'') (js ''user'') (GptService_new None, []) =
   Done ()
     (\<lparr>userContext = loadPromptFromFile None @
         [user_turn (js ''ola''), assistant_turn (js ''Oi '' @ [0x2022] @ js '' tudo bem?'')],
       partialResponseIndex = 1\<rparr>,
      [CreateCompletion (loadPromptFromFile None @ [user_turn (js ''ola'')]),
       GptReply (Some 0) (js ''Oi '' @ [0x2022] @ js '' tudo bem?'') 0])"
  by code_simp


subsection \<open>Fragments of turns that overlap\<close>





text \<open>
  A turn that nothing interrupts is a call of \<open>completion\<close>: begun on a call with no
  other turn and resumed once for every chunk of its stream and once more, it leaves the
  service and the effects that \<open>completion\<close> leaves.
\<close>

lemma resume_ended:
  "i < length ts \<Longrightarrow> ts ! i = None \<Longrightarrow>
   run_schedule n mk ev (r, ts) (replicate k (Resume i)) = (r, ts)"
  by (induction k) simp_all

lemma consume_Cons_as_append:
  "consume mk rec ev ic l (ch # chs) r =
     (case consume mk rec ev ic l [ch] r of
        Pending r' \<Rightarrow> Pending r'
      | Threw e r' \<Rightarrow> Threw e r'
      | Done l' r' \<Rightarrow> consume mk rec ev ic l' chs r')"
  using consume_append [of mk rec ev ic l "[ch]" chs r] by (simp only: append_Cons append_Nil)

lemma alone_loop:
  assumes "i < length ts"
    and "ts ! i = Some \<lparr>task_ic = ic, task_locals = l, task_rest = chs\<rparr>"
  shows "fst (run_schedule n mk ev (r, ts) (replicate (Suc (length chs)) (Resume i))) =
           (case consume mk (completion_with n mk ev) ev ic l chs r of
              Done l' r' \<Rightarrow>
                ((fst r')\<lparr>userContext := userContext (fst r') @
                    [\<lparr>t_role = js ''assistant'', t_name = None, t_content = completeResponse l'\<rparr>]\<rparr>,
                 snd r')
            | Threw e r' \<Rightarrow> r'
            | Pending r' \<Rightarrow> r')"
  using assms
proof (induction chs arbitrary: l r ts)
  case Nil
  then show ?case by simp
next
  case (Cons ch chs)
  define out1 where "out1 = consume mk (completion_with n mk ev) ev ic l [ch] r"
  have whole: "consume mk (completion_with n mk ev) ev ic l (ch # chs) r =
      (case out1 of Pending r' \<Rightarrow> Pending r' | Threw e r' \<Rightarrow> Threw e r'
       | Done l' r' \<Rightarrow> consume mk (completion_with n mk ev) ev ic l' chs r')"
    unfolding out1_def by (rule consume_Cons_as_append)
  have first: "act n mk ev (r, ts) (Resume i) =
      (case out1 of
         Done l' r' \<Rightarrow> (r', ts[i := Some \<lparr>task_ic = ic, task_locals = l', task_rest = chs\<rparr>])
       | Threw e r' \<Rightarrow> (r', ts[i := None])
       | Pending r' \<Rightarrow> (r', ts[i := None]))"
    using Cons.prems by (simp add: out1_def del: consume.simps split: outcome.split)
  have unroll: "run_schedule n mk ev (r, ts) (replicate (Suc (length (ch # chs))) (Resume i)) =
      run_schedule n mk ev (act n mk ev (r, ts) (Resume i)) (replicate (Suc (length chs)) (Resume i))"
    by simp
  show ?case
  proof (cases out1)
    case (Done l' r')
    let ?ts = "ts[i := Some \<lparr>task_ic = ic, task_locals = l', task_rest = chs\<rparr>]"
    have "i < length ?ts" and "?ts ! i = Some \<lparr>task_ic = ic, task_locals = l', task_rest = chs\<rparr>"
      using Cons.prems(1) by simp_all
    from Cons.IH [OF this, of r'] show ?thesis
      by (simp only: unroll first whole Done outcome.case)
  next
    case (Threw e r')
    have "run_schedule n mk ev (r', ts[i := None]) (replicate (Suc (length chs)) (Resume i)) =
            (r', ts[i := None])"
      using Cons.prems(1) by (intro resume_ended) simp_all
    then show ?thesis
      by (simp only: unroll first whole Threw outcome.case fst_conv)
  next
    case (Pending r')
    have "run_schedule n mk ev (r', ts[i := None]) (replicate (Suc (length chs)) (Resume i)) =
            (r', ts[i := None])"
      using Cons.prems(1) by (intro resume_ended) simp_all
    then show ?thesis
      by (simp only: unroll first whole Pending outcome.case fst_conv)
  qed
qed

lemma turn_alone_is_completion:
  "fst (run_schedule n mk ev (r, [])
          (Begin input ic #
           replicate (Suc (length (create ev (userContext
              (updateUserContext (fst r) (js ''user'') (js ''user'') input))))) (Resume 0))) =
   run_of (completion_with (Suc n) mk ev input ic (js ''user'') (js ''user'') r)"
proof -
  let ?svc1 = "updateUserContext (fst r) (js ''user'') (js ''user'') input"
  let ?r1 = "(?svc1, snd r @ [CreateCompletion (userContext ?svc1)])"
  let ?stream = "create ev (userContext ?svc1)"
  let ?ts = "[Some \<lparr>task_ic = ic, task_locals = locals_init, task_rest = ?stream\<rparr>]"
  have start: "act n mk ev (r, []) (Begin input ic) = (?r1, ?ts)"
    by (simp add: Let_def)
  have loop: "fst (run_schedule n mk ev (?r1, ?ts) (replicate (Suc (length ?stream)) (Resume 0))) =
           (case consume mk (completion_with n mk ev) ev ic locals_init ?stream ?r1 of
              Done l' r' \<Rightarrow>
                ((fst r')\<lparr>userContext := userContext (fst r') @
                    [\<lparr>t_role = js ''assistant'', t_name = None, t_content = completeResponse l'\<rparr>]\<rparr>,
                 snd r')
            | Threw e r' \<Rightarrow> r'
            | Pending r' \<Rightarrow> r')"
    by (rule alone_loop) simp_all
  have "run_of (completion_with (Suc n) mk ev input ic (js ''user'') (js ''user'') r) =
           (case consume mk (completion_with n mk ev) ev ic locals_init ?stream ?r1 of
              Done l' r' \<Rightarrow>
                ((fst r')\<lparr>userContext := userContext (fst r') @
                    [\<lparr>t_role = js ''assistant'', t_name = None, t_content = completeResponse l'\<rparr>]\<rparr>,
                 snd r')
            | Threw e r' \<Rightarrow> r'
            | Pending r' \<Rightarrow> r')"
    by (simp add: Let_def split: outcome.split)
  with loop show ?thesis
    by (simp only: run_schedule.simps start)
qed






subsection \<open>The log and the counter across calls\<close>

text \<open>
  C9. The constructor seeds the log with one system turn and one assistant turn;
  \<open>setCallSid\<close> and \<open>completion\<close> (its recursion through tool calls included, whether
  it returns or throws, and at whatever depth the recursion is cut) leave the log they
  found as a prefix of the log they leave.
\<close>

theorem userContext_only_grows:
  "map t_role (userContext (GptService_new promptData)) = [js ''system'', js ''assistant''] \<and>
   (\<exists>ts. userContext (setCallSid svc callSid) = userContext svc @ ts) \<and>
   (\<exists>ts. userContext (fst (run_of (completion_with n mk ev input ic role name (svc, eff)))) =
            userContext svc @ ts)"
proof -
  have "\<exists>ts. userContext (fst (run_of (completion_with n mk ev input ic role name (svc, eff)))) =
            userContext svc @ ts"
    using completion_with_extends [of "(svc, eff)" n mk ev input ic role name]
    by (simp add: extends_def)
  then show ?thesis
    by (auto simp: GptService_new_def loadPromptFromFile_def setCallSid_def split: option.splits)
qed

theorem userContext_only_grows_witness:
  "map t_role (userContext (GptService_new None)) = [js ''system'', js ''assistant''] \<and>
   (\<exists>ts. userContext (setCallSid (GptService_new None) (js ''CA1'')) =
            userContext (GptService_new None) @ ts) \<and>
   (\<exists>ts. loadPromptFromFile None @
            [user_turn (js ''how much''),
             function_turn (js ''lookupPrice'') (js ''249''),
             function_turn (js ''lookupPrice'') (js ''249''),
             assistant_turn (js ''It costs 249.''),
             assistant_turn []] = userContext (GptService_new None) @ ts)"
  using userContext_only_grows
    [where promptData = None and svc = "GptService_new None" and callSid = "js ''CA1''"
       and n = "Suc (Suc 0)" and mk = gpt_service_marker
       and ev = "scripted_env single_brace_stream price_follow_up"
       and input = "js ''how much''" and ic = 0 and role = "js ''user''" and name = "js ''user''"
       and eff = "[]",
     unfolded single_brace_arguments_run_tool [unfolded completion_def]]
  by simp


text \<open>A second turn, on the service and the effects that a first turn with the same
  stream leaves behind.\<close>

lemma second_turn_run:
  "completion (Suc 0) (scripted_env bullet_stream [])
     (js ''e ai'') 1 (js ''user'') (js ''user'')
     (\<lparr>userContext = loadPromptFromFile None @
         [user_turn (js ''ola''), assistant_turn (js ''Oi '' @ [0x2022] @ js '' tudo bem?'')],
       partialResponseIndex = 1\<rparr>,
      [CreateCompletion (loadPromptFromFile None @ [user_turn (js ''ola'')]),
       GptReply (Some 0) (js ''Oi '' @ [0x2022] @ js '' tudo bem?'') 0]) =
   Done ()
     (\<lparr>userContext = loadPromptFromFile None @
         [user_turn (js ''ola''), assistant_turn (js ''Oi '' @ [0x2022] @ js '' tudo bem?''),
          user_turn (js ''e ai''), assistant_turn (js ''Oi '' @ [0x2022] @ js '' tudo bem?'')],
       partialResponseIndex = 2\<rparr>,
      [CreateCompletion (loadPromptFromFile None @ [user_turn (js ''ola'')]),
       GptReply (Some 0) (js ''Oi '' @ [0x2022] @ js '' tudo bem?'') 0,
       CreateCompletion (loadPromptFromFile None @
         [user_turn (js ''ola''), assistant_turn (js ''Oi '' @ [0x2022] @ js '' tudo bem?''),
          user_turn (js ''e ai'')]),
       GptReply (Some 1) (js ''Oi '' @ [0x2022] @ js '' tudo bem?'') 1])"
  by code_simp

text \<open>
  C10. The counter is 0 after construction, \<open>setCallSid\<close> leaves it alone, and a call
  of \<open>completion\<close> never lowers it: the fragments of the call carry the indices from the
  value the counter had when the call started up to the value it has at the end. A later
  turn therefore continues where the turn before it stopped instead of starting at 0.
\<close>

theorem fragment_counter_never_reset:
  "partialResponseIndex (GptService_new promptData) = 0 \<and>
   partialResponseIndex (setCallSid svc callSid) = partialResponseIndex svc \<and>
   partialResponseIndex svc \<le>
     partialResponseIndex (fst (run_of (completion_with n mk ev input ic role name (svc, eff)))) \<and>
   (\<exists>new. snd (run_of (completion_with n mk ev input ic role name (svc, eff))) = eff @ new \<and>
      reply_indices new =
        [partialResponseIndex svc ..<
         partialResponseIndex (fst (run_of (completion_with n mk ev input ic role name (svc, eff))))])"
  using completion_with_extends [of "(svc, eff)" n mk ev input ic role name]
  by (simp add: extends_def GptService_new_def setCallSid_def)

theorem fragment_counter_never_reset_witness:
  "partialResponseIndex (GptService_new None) = 0 \<and>
   (\<exists>new. [CreateCompletion (loadPromptFromFile None @ [user_turn (js ''ola'')]),
            GptReply (Some 0) (js ''Oi '' @ [0x2022] @ js '' tudo bem?'') 0,
            CreateCompletion (loadPromptFromFile None @
              [user_turn (js ''ola''), assistant_turn (js ''Oi '' @ [0x2022] @ js '' tudo bem?''),
               user_turn (js ''e ai'')]),
            GptReply (Some 1) (js ''Oi '' @ [0x2022] @ js '' tudo bem?'') 1] =
           [CreateCompletion (loadPromptFromFile None @ [user_turn (js ''ola'')]),
            GptReply (Some 0) (js ''Oi '' @ [0x2022] @ js '' tudo bem?'') 0] @ new \<and>
          reply_indices new = [1])"
  using fragment_counter_never_reset
    [where promptData = None
       and svc = "\<lparr>userContext = loadPromptFromFile None @
              [user_turn (js ''ola''), assistant_turn (js ''Oi '' @ [0x2022] @ js '' tudo bem?'')],
            partialResponseIndex = 1\<rparr>"
       and n = "Suc 0" and mk = gpt_service_marker
       and ev = "scripted_env bullet_stream []"
       and input = "js ''e ai''" and ic = 1 and role = "js ''user''" and name = "js ''user''"
       and eff = "[CreateCompletion (loadPromptFromFile None @ [user_turn (js ''ola'')]),
                   GptReply (Some 0) (js ''Oi '' @ [0x2022] @ js '' tudo bem?'') 0]",
     unfolded second_turn_run [unfolded completion_def]]
  by simp

end
